theory Spec2Isabelle
  imports Main "HOL-Library.Word"
begin

section \<open>Errors (package storage, and the error values of the drivers)\<close>

text \<open>
  Go's \<open>int64\<close>. Identifiers are only compared for equality and converted from the
  32-bit timestamp of an ObjectID.
\<close>

type_synonym int64 = "64 word"

text \<open>
  The extended result codes of \<open>sqlite3.Error\<close> that the two table definitions can raise.
\<close>

datatype sqlite_code = ErrConstraintUnique | ErrConstraintForeignKey | ErrFull

text \<open>
  An \<open>error\<close> value. The first five constructors are the sentinels of package
  \<open>storage\<close>; \<open>ErrNoRows\<close> is \<open>sql.ErrNoRows\<close>, \<open>ErrNoDocuments\<close> is
  \<open>mongo.ErrNoDocuments\<close>; \<open>SqliteError\<close> is a \<open>sqlite3.Error\<close> with its extended
  code and message; \<open>Native\<close> is any other failure reported by a driver (connection lost,
  file unreadable, ...), carrying its message. \<open>New\<close> is \<open>errors.New\<close>, \<open>Errorf\<close> is
  \<open>fmt.Errorf\<close> with a format that has no \<open>%w\<close> verb (the arguments are only printed),
  and \<open>Wrap p e\<close> is \<open>fmt.Errorf\<close> with a format that ends in \<open>%w\<close>: \<open>p\<close> is the
  text printed before the wrapped error \<open>e\<close>.
\<close>

datatype error =
    ErrURLNotFound
  | ErrURLExists
  | ErrUserExists
  | ErrUserNotFound
  | ErrUnauthorized
  | ErrNoRows
  | ErrNoDocuments
  | SqliteError sqlite_code string
  | Native string
  | New string
  | Errorf string
  | Wrap string error

text \<open>The method \<open>Error()\<close>: the message of an error value.\<close>

fun Error :: "error \<Rightarrow> string" where
  "Error ErrURLNotFound = ''Url not found''"
| "Error ErrURLExists = ''Url exists''"
| "Error ErrUserExists = ''User exists''"
| "Error ErrUserNotFound = ''User not found''"
| "Error ErrUnauthorized = ''Unauthorized''"
| "Error ErrNoRows = ''sql: no rows in result set''"
| "Error ErrNoDocuments = ''mongo: no documents in result''"
| "Error (SqliteError c m) = m"
| "Error (Native m) = m"
| "Error (New m) = m"
| "Error (Errorf m) = m"
| "Error (Wrap p e) = p @ Error e"

text \<open>
  \<open>errors.Is\<close>: the error itself or an error on its \<open>Unwrap\<close> chain is the target.
  Only \<open>Wrap\<close> has an \<open>Unwrap\<close> method.
\<close>

fun errors_Is :: "error \<Rightarrow> error \<Rightarrow> bool" where
  "errors_Is (Wrap p e) target = (Wrap p e = target \<or> errors_Is e target)"
| "errors_Is e target = (e = target)"

text \<open>The verb \<open>%v\<close> applied to an error: its message, or \<open><nil>\<close>.\<close>

fun fmt_v :: "error option \<Rightarrow> string" where
  "fmt_v None = ''<nil>''"
| "fmt_v (Some e) = Error e"

text \<open>The three domain kinds of the error taxonomy, one sentinel per record type.\<close>

definition NotFound :: "error \<Rightarrow> bool" where
  "NotFound e = (errors_Is e ErrURLNotFound \<or> errors_Is e ErrUserNotFound)"

definition AlreadyExists :: "error \<Rightarrow> bool" where
  "AlreadyExists e = (errors_Is e ErrURLExists \<or> errors_Is e ErrUserExists)"

definition Unauthorized :: "error \<Rightarrow> bool" where
  "Unauthorized e = errors_Is e ErrUnauthorized"

definition domain_kind :: "error \<Rightarrow> bool" where
  "domain_kind e = (NotFound e \<or> AlreadyExists e \<or> Unauthorized e)"


section \<open>The relational backend (package sqlite)\<close>

text \<open>
  The two tables of \<open>sqlite.New\<close>. \<open>users(id, nickname, password_hash)\<close>; of
  \<open>urls(id, alias, url, user_id)\<close> the column \<open>id\<close> is never read by the program and
  is left out. Every row is written by \<open>SaveUser\<close> or \<open>SaveURL\<close>, so no column is NULL.
\<close>

record user_row =
  u_id :: int64
  u_nickname :: string
  u_password_hash :: string

record url_row =
  r_alias :: string
  r_url :: string
  r_user_id :: int64

text \<open>
  \<open>sqlite.Storage\<close>: the database behind the handle \<open>db\<close>. \<open>sq_foreign_keys\<close> says
  whether the connection enforces foreign keys (SQLite does so only when the data source
  name or a pragma asks for it; \<open>New\<close> passes the name through). \<open>sq_faults\<close> is the
  outcome of the coming driver calls: each call of the driver takes the head of the list,
  and \<open>Some m\<close> makes that call fail with the driver error \<open>m\<close>; when the list is empty
  every call reaches the database.
\<close>

record sqlite_Storage =
  sq_users :: "user_row list"
  sq_urls :: "url_row list"
  sq_foreign_keys :: bool
  sq_faults :: "string option list"

definition sq_call :: "sqlite_Storage \<Rightarrow> error option \<times> sqlite_Storage" where
  "sq_call s =
     (case sq_faults s of
        [] \<Rightarrow> (None, s)
      | None # fs \<Rightarrow> (None, s\<lparr>sq_faults := fs\<rparr>)
      | Some m # fs \<Rightarrow> (Some (Native m), s\<lparr>sq_faults := fs\<rparr>))"

text \<open>\<open>db.Prepare\<close>, \<open>tx.Prepare\<close>, \<open>db.Begin\<close>, \<open>tx.Commit\<close>, \<open>res.LastInsertId\<close>.\<close>

definition Prepare :: "sqlite_Storage \<Rightarrow> error option \<times> sqlite_Storage" where
  "Prepare s = sq_call s"

definition Begin :: "sqlite_Storage \<Rightarrow> error option \<times> sqlite_Storage" where
  "Begin s = sq_call s"

definition LastInsertId :: "sqlite_Storage \<Rightarrow> error option \<times> sqlite_Storage" where
  "LastInsertId s = sq_call s"

text \<open>
  \<open>QueryRow(...).Scan(...)\<close> on the rows a query selects: the first row, or
  \<open>sql.ErrNoRows\<close>.
\<close>

definition QueryRow :: "sqlite_Storage \<Rightarrow> 'a list \<Rightarrow> (error + 'a) \<times> sqlite_Storage" where
  "QueryRow s rows =
     (case sq_call s of
        (Some err, s') \<Rightarrow> (Inl err, s')
      | (None, s') \<Rightarrow>
          (case rows of [] \<Rightarrow> (Inl ErrNoRows, s') | r # _ \<Rightarrow> (Inr r, s')))"

text \<open>
  \<open>INSERT INTO urls (url, alias, user_id) VALUES (?, ?, ?)\<close>. The unique index on
  \<open>alias\<close> is checked when the row is written, the foreign key when the statement ends.
\<close>

definition Exec_insert_url ::
  "sqlite_Storage \<Rightarrow> string \<Rightarrow> string \<Rightarrow> int64 \<Rightarrow> error option \<times> sqlite_Storage" where
  "Exec_insert_url s urlToSave alias userID =
     (case sq_call s of
        (Some err, s') \<Rightarrow> (Some err, s')
      | (None, s') \<Rightarrow>
          if alias \<in> set (map r_alias (sq_urls s'))
          then (Some (SqliteError ErrConstraintUnique ''UNIQUE constraint failed: urls.alias''), s')
          else if sq_foreign_keys s' \<and> userID \<notin> set (map u_id (sq_users s'))
          then (Some (SqliteError ErrConstraintForeignKey ''FOREIGN KEY constraint failed''), s')
          else (None, s'\<lparr>sq_urls := sq_urls s' @
                  [\<lparr>r_alias = alias, r_url = urlToSave, r_user_id = userID\<rparr>]\<rparr>))"

definition sqlite_SaveURL ::
  "sqlite_Storage \<Rightarrow> string \<Rightarrow> string \<Rightarrow> int64 \<Rightarrow> error option \<times> sqlite_Storage" where
  "sqlite_SaveURL s urlToSave alias userID =
     (case Prepare s of
        (Some err, s1) \<Rightarrow> (Some (Wrap ''storage.sqlite.SaveURL: prepare statement: '' err), s1)
      | (None, s1) \<Rightarrow>
          (case Exec_insert_url s1 urlToSave alias userID of
             (Some err, s2) \<Rightarrow>
               (case err of
                  SqliteError ErrConstraintUnique m \<Rightarrow>
                    (Some (Wrap ''storage.sqlite.SaveURL: '' ErrURLExists), s2)
                | _ \<Rightarrow> (Some (Wrap ''storage.sqlite.SaveURL: exec statement: '' err), s2))
           | (None, s2) \<Rightarrow>
               (case LastInsertId s2 of
                  (Some err, s3) \<Rightarrow>
                    (Some (Wrap ''storage.sqlite.SaveURL: failed to get last insert id: 0. '' err), s3)
                | (None, s3) \<Rightarrow> (None, s3))))"

definition sqlite_GetURL ::
  "sqlite_Storage \<Rightarrow> string \<Rightarrow> int64 \<Rightarrow> (string \<times> error option) \<times> sqlite_Storage" where
  "sqlite_GetURL s alias userID =
     (case Prepare s of
        (Some err, s1) \<Rightarrow>
          (('''', Some (Wrap ''storage.sqlite.GetURL: prepare existence check statement: '' err)), s1)
      | (None, s1) \<Rightarrow>
     (case QueryRow s1 (map (\<lambda>r. (1::int)) (filter (\<lambda>r. r_alias r = alias) (sq_urls s1))) of
        (Inl err, s2) \<Rightarrow>
          if errors_Is err ErrNoRows then (('''', Some ErrURLNotFound), s2)
          else (('''', Some (Wrap ''storage.sqlite.GetURL: execute existence check statement: '' err)), s2)
      | (Inr exists, s2) \<Rightarrow>
     (case Prepare s2 of
        (Some err, s3) \<Rightarrow>
          (('''', Some (Wrap ''storage.sqlite.GetURL: prepare ownership check statement: '' err)), s3)
      | (None, s3) \<Rightarrow>
     (case QueryRow s3 (map r_user_id (filter (\<lambda>r. r_alias r = alias) (sq_urls s3))) of
        (Inl err, s4) \<Rightarrow>
          (('''', Some (Wrap ''storage.sqlite.GetURL: execute ownership check statement: '' err)), s4)
      | (Inr dbUserID, s4) \<Rightarrow>
          if dbUserID \<noteq> userID then (('''', Some ErrUnauthorized), s4)
          else
     (case Prepare s4 of
        (Some err, s5) \<Rightarrow>
          (('''', Some (Wrap ''storage.sqlite.GetURL: prepare get URL statement: '' err)), s5)
      | (None, s5) \<Rightarrow>
     (case QueryRow s5 (map r_url
              (filter (\<lambda>r. r_alias r = alias \<and> r_user_id r = userID) (sq_urls s5))) of
        (Inl err, s6) \<Rightarrow>
          (('''', Some (Wrap ''storage.sqlite.GetURL: execute get URL statement: '' err)), s6)
      | (Inr resURL, s6) \<Rightarrow> ((resURL, None), s6)))))))"

text \<open>
  \<open>INSERT INTO users(nickname, password_hash) VALUES(?, ?)\<close>. \<open>id\<close> is an
  \<open>INTEGER PRIMARY KEY\<close> without \<open>AUTOINCREMENT\<close>: the new row gets the largest
  \<open>id\<close> in use plus one, and 1 in an empty table. When the largest \<open>id\<close> is the largest
  \<open>int64\<close>, SQLite probes for an unused one and reports \<open>SQLITE_FULL\<close> when it finds
  none; that corner is \<open>SQLITE_FULL\<close> here.
\<close>

definition new_rowid :: "int64 list \<Rightarrow> int64 option" where
  "new_rowid ids =
     (let m = fold max (map sint ids) 0
      in if m \<ge> 2 ^ 63 - 1 then None else Some (word_of_int (m + 1)))"

definition Exec_insert_user ::
  "sqlite_Storage \<Rightarrow> string \<Rightarrow> string \<Rightarrow> (error + int64) \<times> sqlite_Storage" where
  "Exec_insert_user s nickname passwordHash =
     (case sq_call s of
        (Some err, s') \<Rightarrow> (Inl err, s')
      | (None, s') \<Rightarrow>
          if nickname \<in> set (map u_nickname (sq_users s'))
          then (Inl (SqliteError ErrConstraintUnique ''UNIQUE constraint failed: users.nickname''), s')
          else
            (case new_rowid (map u_id (sq_users s')) of
               None \<Rightarrow> (Inl (SqliteError ErrFull ''database or disk is full''), s')
             | Some i \<Rightarrow>
                 (Inr i, s'\<lparr>sq_users := sq_users s' @
                    [\<lparr>u_id = i, u_nickname = nickname, u_password_hash = passwordHash\<rparr>]\<rparr>)))"

definition sqlite_SaveUser ::
  "sqlite_Storage \<Rightarrow> string \<Rightarrow> string \<Rightarrow> (int64 \<times> error option) \<times> sqlite_Storage" where
  "sqlite_SaveUser s nickname passwordHash =
     (case Prepare s of
        (Some err, s1) \<Rightarrow> ((0, Some (Wrap ''storage.sqlite.SaveUser: '' err)), s1)
      | (None, s1) \<Rightarrow>
          (case Exec_insert_user s1 nickname passwordHash of
             (Inl err, s2) \<Rightarrow>
               (case err of
                  SqliteError ErrConstraintUnique m \<Rightarrow>
                    ((0, Some (Wrap ''storage.sqlite.SaveUser: '' ErrUserExists)), s2)
                | _ \<Rightarrow> ((0, Some (Wrap ''storage.sqlite.SaveUser: '' err)), s2))
           | (Inr i, s2) \<Rightarrow>
               (case LastInsertId s2 of
                  (Some err, s3) \<Rightarrow>
                    ((0, Some (Wrap ''storage.sqlite.SaveUser: failed to get last insert id: '' err)), s3)
                | (None, s3) \<Rightarrow> ((i, None), s3))))"

definition sqlite_GetUserByNickname ::
  "sqlite_Storage \<Rightarrow> string \<Rightarrow> (int64 \<times> string \<times> error option) \<times> sqlite_Storage" where
  "sqlite_GetUserByNickname s nickname =
     (case Prepare s of
        (Some err, s1) \<Rightarrow>
          ((0, '''', Some (Wrap ''storage.sqlite.GetUserByNickname: prepare statement: '' err)), s1)
      | (None, s1) \<Rightarrow>
          (case QueryRow s1 (map (\<lambda>u. (u_id u, u_password_hash u))
                  (filter (\<lambda>u. u_nickname u = nickname) (sq_users s1))) of
             (Inl err, s2) \<Rightarrow>
               if errors_Is err ErrNoRows then ((0, '''', Some ErrUserNotFound), s2)
               else ((0, '''', Some (Wrap ''storage.sqlite.GetUserByNickname: execute statement: '' err)), s2)
           | (Inr (i, passwordHash), s2) \<Rightarrow> ((i, passwordHash, None), s2)))"

text \<open>
  The transaction of \<open>DeleteUserByNickname\<close>. \<open>Rollback s0 t\<close> is the deferred
  \<open>tx.Rollback()\<close> on a return before the commit: the tables are again those of \<open>s0\<close>,
  the state in which the transaction began. A commit that fails commits nothing.
\<close>

definition Rollback :: "sqlite_Storage \<Rightarrow> sqlite_Storage \<Rightarrow> sqlite_Storage" where
  "Rollback s0 t = t\<lparr>sq_users := sq_users s0, sq_urls := sq_urls s0\<rparr>"

definition Commit :: "sqlite_Storage \<Rightarrow> sqlite_Storage \<Rightarrow> error option \<times> sqlite_Storage" where
  "Commit s0 t =
     (case sq_call t of
        (Some err, t') \<Rightarrow> (Some err, Rollback s0 t')
      | (None, t') \<Rightarrow> (None, t'))"

text \<open>\<open>DELETE FROM urls WHERE user_id = ?\<close>\<close>

definition Exec_delete_urls :: "sqlite_Storage \<Rightarrow> int64 \<Rightarrow> error option \<times> sqlite_Storage" where
  "Exec_delete_urls t userID =
     (case sq_call t of
        (Some err, t') \<Rightarrow> (Some err, t')
      | (None, t') \<Rightarrow> (None, t'\<lparr>sq_urls := filter (\<lambda>r. r_user_id r \<noteq> userID) (sq_urls t')\<rparr>))"

text \<open>
  \<open>DELETE FROM users WHERE id = ?\<close>; with foreign keys enforced, \<open>ON DELETE CASCADE\<close>
  deletes the rows of \<open>urls\<close> that refer to the user.
\<close>

definition Exec_delete_user :: "sqlite_Storage \<Rightarrow> int64 \<Rightarrow> error option \<times> sqlite_Storage" where
  "Exec_delete_user t userID =
     (case sq_call t of
        (Some err, t') \<Rightarrow> (Some err, t')
      | (None, t') \<Rightarrow>
          (None, t'\<lparr>sq_users := filter (\<lambda>u. u_id u \<noteq> userID) (sq_users t'),
                     sq_urls := (if sq_foreign_keys t'
                                 then filter (\<lambda>r. r_user_id r \<noteq> userID) (sq_urls t')
                                 else sq_urls t')\<rparr>))"

definition sqlite_DeleteUserByNickname ::
  "sqlite_Storage \<Rightarrow> string \<Rightarrow> error option \<times> sqlite_Storage" where
  "sqlite_DeleteUserByNickname s nickname =
     (case Begin s of
        (Some err, s0) \<Rightarrow>
          (Some (Wrap ''storage.sqlite.DeleteUserByNickname: failed to begin transaction: '' err), s0)
      | (None, s0) \<Rightarrow>
     (case QueryRow s0 (map u_id (filter (\<lambda>u. u_nickname u = nickname) (sq_users s0))) of
        (Inl err, t1) \<Rightarrow>
          (Some (Wrap ''storage.sqlite.DeleteUserByNickname: execute get user ID statement: '' err),
           Rollback s0 t1)
      | (Inr userID, t1) \<Rightarrow>
     (case QueryRow t1 [int (length (filter (\<lambda>r. r_user_id r = userID) (sq_urls t1)))] of
        (Inl err, t2) \<Rightarrow>
          (Some (Wrap ''storage.sqlite.DeleteUserByNickname: failed to count user URLs: '' err),
           Rollback s0 t2)
      | (Inr urlCount, t2) \<Rightarrow>
          if urlCount = 0
          then (Some (Errorf ''storage.sqlite.DeleteUserByNickname: no URLs found for user''),
                Rollback s0 t2)
          else
     (case Prepare t2 of
        (Some err, t3) \<Rightarrow>
          (Some (Wrap ''storage.sqlite.DeleteUserByNickname: prepare delete URLs statement: '' err),
           Rollback s0 t3)
      | (None, t3) \<Rightarrow>
     (case Exec_delete_urls t3 userID of
        (Some err, t4) \<Rightarrow>
          (Some (Wrap ''storage.sqlite.DeleteUserByNickname: execute delete URLs statement: '' err),
           Rollback s0 t4)
      | (None, t4) \<Rightarrow>
     (case Prepare t4 of
        (Some err, t5) \<Rightarrow>
          (Some (Wrap ''storage.sqlite.DeleteUserByNickname: prepare delete user statement: '' err),
           Rollback s0 t5)
      | (None, t5) \<Rightarrow>
     (case Exec_delete_user t5 userID of
        (Some err, t6) \<Rightarrow>
          (Some (Wrap ''storage.sqlite.DeleteUserByNickname: execute delete user statement: '' err),
           Rollback s0 t6)
      | (None, t6) \<Rightarrow>
     (case Commit s0 t6 of
        (Some err, t7) \<Rightarrow>
          (Some (Wrap ''storage.sqlite.DeleteUserByNickname: failed to commit transaction: '' err), t7)
      | (None, t7) \<Rightarrow> (None, t7)))))))))"


section \<open>The document backend (package mongodb)\<close>

text \<open>
  An ObjectID: the seconds since the epoch at its creation in its first four bytes, and
  eight more bytes that make it unique. BSON values compare equal only within one type.
\<close>

record objectid =
  oid_timestamp :: "32 word"
  oid_rest :: nat

datatype bson = BString string | BInt64 int64 | BObjectID objectid

text \<open>
  The documents of the collections \<open>users\<close> and \<open>urls\<close>. \<open>SaveUser\<close> and \<open>SaveURL\<close>
  are their only writers: they insert a \<open>bson.M\<close> with three fields and no \<open>_id\<close>, so
  the driver adds a fresh ObjectID as \<open>_id\<close>.
\<close>

record user_doc =
  ud_id :: objectid
  ud_nickname :: string
  ud_password_hash :: string
  ud_user_id :: int64

record url_doc =
  ld_id :: objectid
  ld_url :: string
  ld_alias :: string
  ld_user_id :: int64

definition user_field :: "user_doc \<Rightarrow> string \<Rightarrow> bson option" where
  "user_field d k =
     (if k = ''_id'' then Some (BObjectID (ud_id d))
      else if k = ''nickname'' then Some (BString (ud_nickname d))
      else if k = ''password_hash'' then Some (BString (ud_password_hash d))
      else if k = ''user_id'' then Some (BInt64 (ud_user_id d))
      else None)"

definition url_field :: "url_doc \<Rightarrow> string \<Rightarrow> bson option" where
  "url_field d k =
     (if k = ''_id'' then Some (BObjectID (ld_id d))
      else if k = ''url'' then Some (BString (ld_url d))
      else if k = ''alias'' then Some (BString (ld_alias d))
      else if k = ''user_id'' then Some (BInt64 (ld_user_id d))
      else None)"

text \<open>A filter \<open>bson.M{k: v}\<close> selects the documents whose field \<open>k\<close> equals \<open>v\<close>.\<close>

definition matches :: "('d \<Rightarrow> string \<Rightarrow> bson option) \<Rightarrow> string \<times> bson \<Rightarrow> 'd \<Rightarrow> bool" where
  "matches field flt d = (field d (fst flt) = Some (snd flt))"

text \<open>
  \<open>mongodb.Storage\<close>: the database behind \<open>db\<close>. \<open>mg_now\<close> is the clock (seconds) and
  \<open>mg_counter\<close> the counter from which the driver builds ObjectIDs; \<open>mg_faults\<close> is
  the outcome of the coming driver calls, as for SQLite.
\<close>

record mongo_Storage =
  mg_users :: "user_doc list"
  mg_urls :: "url_doc list"
  mg_now :: "32 word"
  mg_counter :: nat
  mg_faults :: "string option list"

definition mg_call :: "mongo_Storage \<Rightarrow> error option \<times> mongo_Storage" where
  "mg_call s =
     (case mg_faults s of
        [] \<Rightarrow> (None, s)
      | None # fs \<Rightarrow> (None, s\<lparr>mg_faults := fs\<rparr>)
      | Some m # fs \<Rightarrow> (Some (Native m), s\<lparr>mg_faults := fs\<rparr>))"

definition NewObjectID :: "mongo_Storage \<Rightarrow> objectid \<times> mongo_Storage" where
  "NewObjectID s =
     (\<lparr>oid_timestamp = mg_now s, oid_rest = mg_counter s\<rparr>, s\<lparr>mg_counter := mg_counter s + 1\<rparr>)"

definition StartSession :: "mongo_Storage \<Rightarrow> error option \<times> mongo_Storage" where
  "StartSession s = mg_call s"

text \<open>\<open>collection.CountDocuments(ctx, filter)\<close>\<close>

definition CountDocuments ::
  "mongo_Storage \<Rightarrow> ('d \<Rightarrow> string \<Rightarrow> bson option) \<Rightarrow> 'd list \<Rightarrow> string \<times> bson \<Rightarrow>
     (error + int) \<times> mongo_Storage" where
  "CountDocuments s field docs flt =
     (case mg_call s of
        (Some err, s') \<Rightarrow> (Inl err, s')
      | (None, s') \<Rightarrow> (Inr (int (length (filter (matches field flt) docs))), s'))"

text \<open>\<open>collection.FindOne(ctx, filter).Decode(&doc)\<close>: the first match.\<close>

definition FindOne ::
  "mongo_Storage \<Rightarrow> ('d \<Rightarrow> string \<Rightarrow> bson option) \<Rightarrow> 'd list \<Rightarrow> string \<times> bson \<Rightarrow>
     (error + 'd) \<times> mongo_Storage" where
  "FindOne s field docs flt =
     (case mg_call s of
        (Some err, s') \<Rightarrow> (Inl err, s')
      | (None, s') \<Rightarrow>
          (case find (matches field flt) docs of
             None \<Rightarrow> (Inl ErrNoDocuments, s')
           | Some d \<Rightarrow> (Inr d, s')))"

text \<open>\<open>DeleteOne\<close> removes the first match, if there is one.\<close>

fun delete_first :: "('d \<Rightarrow> bool) \<Rightarrow> 'd list \<Rightarrow> 'd list" where
  "delete_first P [] = []"
| "delete_first P (d # ds) = (if P d then ds else d # delete_first P ds)"

definition mongodb_SaveURL ::
  "mongo_Storage \<Rightarrow> string \<Rightarrow> string \<Rightarrow> int64 \<Rightarrow> (objectid option \<times> error option) \<times> mongo_Storage" where
  "mongodb_SaveURL s urlToSave alias userID =
     (case CountDocuments s url_field (mg_urls s) (''alias'', BString alias) of
        (Inl err, s1) \<Rightarrow> ((None, Some (Wrap ''mongodb.SaveURL: count documents: '' err)), s1)
      | (Inr count, s1) \<Rightarrow>
          if count > 0 then ((None, Some (Wrap ''mongodb.SaveURL: '' ErrURLExists)), s1)
          else
            (case mg_call s1 of
               (Some err, s2) \<Rightarrow> ((None, Some (Wrap ''mongodb.SaveURL: insert document: '' err)), s2)
             | (None, s2) \<Rightarrow>
                 (case NewObjectID s2 of
                    (oid, s3) \<Rightarrow>
                      ((Some oid, None),
                       s3\<lparr>mg_urls := mg_urls s3 @
                            [\<lparr>ld_id = oid, ld_url = urlToSave, ld_alias = alias,
                              ld_user_id = userID\<rparr>]\<rparr>))))"

definition mongodb_GetURL ::
  "mongo_Storage \<Rightarrow> string \<Rightarrow> int64 \<Rightarrow> (string \<times> error option) \<times> mongo_Storage" where
  "mongodb_GetURL s alias userID =
     (case FindOne s url_field (mg_urls s) (''alias'', BString alias) of
        (Inl err, s1) \<Rightarrow>
          if err = ErrNoDocuments then (('''', Some ErrURLNotFound), s1)
          else (('''', Some (Wrap ''mongodb.GetURL: find document: '' err)), s1)
      | (Inr doc, s1) \<Rightarrow>
          if ld_user_id doc \<noteq> userID then (('''', Some ErrUnauthorized), s1)
          else ((ld_url doc, None), s1))"

definition mongodb_SaveUser ::
  "mongo_Storage \<Rightarrow> string \<Rightarrow> string \<Rightarrow> int64 \<Rightarrow> (objectid option \<times> error option) \<times> mongo_Storage" where
  "mongodb_SaveUser s nickname passwordHash userID =
     (case CountDocuments s user_field (mg_users s) (''nickname'', BString nickname) of
        (Inl err, s1) \<Rightarrow> ((None, Some (Wrap ''mongodb.SaveUser: count documents: '' err)), s1)
      | (Inr count, s1) \<Rightarrow>
          if count > 0 then ((None, Some (Wrap ''mongodb.SaveUser: '' ErrUserExists)), s1)
          else
            (case mg_call s1 of
               (Some err, s2) \<Rightarrow> ((None, Some (Wrap ''mongodb.SaveUser: insert document: '' err)), s2)
             | (None, s2) \<Rightarrow>
                 (case NewObjectID s2 of
                    (oid, s3) \<Rightarrow>
                      ((Some oid, None),
                       s3\<lparr>mg_users := mg_users s3 @
                            [\<lparr>ud_id = oid, ud_nickname = nickname,
                              ud_password_hash = passwordHash, ud_user_id = userID\<rparr>]\<rparr>))))"

text \<open>
  \<open>GetUserByNickname\<close> decodes \<open>_id\<close> and \<open>password_hash\<close> only; the identifier it
  returns is \<open>int64(doc.ID.Timestamp().Unix())\<close>, the creation time of the ObjectID.
\<close>

definition mongodb_GetUserByNickname ::
  "mongo_Storage \<Rightarrow> string \<Rightarrow> (int64 \<times> string \<times> error option) \<times> mongo_Storage" where
  "mongodb_GetUserByNickname s nickname =
     (case FindOne s user_field (mg_users s) (''nickname'', BString nickname) of
        (Inl err, s1) \<Rightarrow>
          if err = ErrNoDocuments then ((0, '''', Some ErrUserNotFound), s1)
          else ((0, '''', Some (Wrap ''mongodb.GetUserByNickname: find document: '' err)), s1)
      | (Inr doc, s1) \<Rightarrow>
          (let userID = (ucast (oid_timestamp (ud_id doc)) :: int64)
           in ((userID, ud_password_hash doc, None), s1)))"

text \<open>
  The function passed to \<open>mongo.WithSession\<close> by \<open>DeleteUserByNickname\<close>. No
  transaction is started on the session, so each call takes effect when it is made.
  \<open>doc.ID\<close> is the field \<open>user_id\<close> decoded as \<open>int64\<close>; it is the value of both
  filters.
\<close>

definition DeleteUserByNickname_session ::
  "mongo_Storage \<Rightarrow> string \<Rightarrow> error option \<times> mongo_Storage" where
  "DeleteUserByNickname_session s nickname =
     (case FindOne s user_field (mg_users s) (''nickname'', BString nickname) of
        (Inl err, s1) \<Rightarrow>
          if err = ErrNoDocuments then (Some ErrUserNotFound, s1)
          else (Some (Wrap ''mongodb.DeleteUserByNickname: find user: '' err), s1)
      | (Inr doc, s1) \<Rightarrow>
          (let ID = ud_user_id doc in
           case mg_call s1 of
             (Some err, s2) \<Rightarrow> (Some (Wrap ''mongodb.DeleteUserByNickname: delete URLs: '' err), s2)
           | (None, s2) \<Rightarrow>
               (let s3 = s2\<lparr>mg_urls :=
                             filter (\<lambda>d. \<not> matches url_field (''user_id'', BInt64 ID) d) (mg_urls s2)\<rparr>
                in case mg_call s3 of
                     (Some err, s4) \<Rightarrow>
                       (Some (Wrap ''mongodb.DeleteUserByNickname: delete user: '' err), s4)
                   | (None, s4) \<Rightarrow>
                       (None, s4\<lparr>mg_users :=
                                  delete_first (matches user_field (''_id'', BInt64 ID)) (mg_users s4)\<rparr>))))"

definition mongodb_DeleteUserByNickname ::
  "mongo_Storage \<Rightarrow> string \<Rightarrow> error option \<times> mongo_Storage" where
  "mongodb_DeleteUserByNickname s nickname =
     (case StartSession s of
        (Some err, s1) \<Rightarrow> (Some (Wrap ''mongodb.DeleteUserByNickname: start session: '' err), s1)
      | (None, s1) \<Rightarrow>
          (case DeleteUserByNickname_session s1 nickname of
             (Some err, s2) \<Rightarrow>
               (Some (Wrap ''mongodb.DeleteUserByNickname: transaction failed: '' err), s2)
           | (None, s2) \<Rightarrow> (None, s2)))"


section \<open>The coordinator (package multiStorage)\<close>

record DualStorage =
  sqliteDB :: sqlite_Storage
  mongoDB :: mongo_Storage

definition SaveURL ::
  "DualStorage \<Rightarrow> string \<Rightarrow> string \<Rightarrow> int64 \<Rightarrow> error option \<times> DualStorage" where
  "SaveURL ds urlToSave alias userID =
     (case sqlite_SaveURL (sqliteDB ds) urlToSave alias userID of
        (Some err, sq) \<Rightarrow> (Some err, ds\<lparr>sqliteDB := sq\<rparr>)
      | (None, sq) \<Rightarrow>
          (case mongodb_SaveURL (mongoDB ds) urlToSave alias userID of
             ((_, Some err), mg) \<Rightarrow> (Some err, ds\<lparr>sqliteDB := sq, mongoDB := mg\<rparr>)
           | ((_, None), mg) \<Rightarrow> (None, ds\<lparr>sqliteDB := sq, mongoDB := mg\<rparr>)))"

definition GetURL ::
  "DualStorage \<Rightarrow> string \<Rightarrow> int64 \<Rightarrow> (string \<times> error option) \<times> DualStorage" where
  "GetURL ds alias userID =
     (case sqlite_GetURL (sqliteDB ds) alias userID of
        ((url, None), sq) \<Rightarrow> ((url, None), ds\<lparr>sqliteDB := sq\<rparr>)
      | ((_, Some err), sq) \<Rightarrow>
          (case mongodb_GetURL (mongoDB ds) alias userID of
             ((_, Some err), mg) \<Rightarrow> (('''', Some err), ds\<lparr>sqliteDB := sq, mongoDB := mg\<rparr>)
           | ((url, None), mg) \<Rightarrow> ((url, None), ds\<lparr>sqliteDB := sq, mongoDB := mg\<rparr>)))"

definition SaveUser ::
  "DualStorage \<Rightarrow> string \<Rightarrow> string \<Rightarrow> error option \<times> DualStorage" where
  "SaveUser ds nickname passwordHash =
     (case sqlite_SaveUser (sqliteDB ds) nickname passwordHash of
        ((_, Some err), sq) \<Rightarrow> (Some err, ds\<lparr>sqliteDB := sq\<rparr>)
      | ((userID, None), sq) \<Rightarrow>
          (case mongodb_SaveUser (mongoDB ds) nickname passwordHash userID of
             ((_, Some err), mg) \<Rightarrow> (Some err, ds\<lparr>sqliteDB := sq, mongoDB := mg\<rparr>)
           | ((_, None), mg) \<Rightarrow> (None, ds\<lparr>sqliteDB := sq, mongoDB := mg\<rparr>)))"

text \<open>
  \<open>GetUserByNickname\<close> asks both backends and then takes the first case of its
  \<open>switch\<close> whose condition holds; \<open>default\<close> is the last branch.
\<close>

definition GetUserByNickname ::
  "DualStorage \<Rightarrow> string \<Rightarrow> (int64 \<times> string \<times> error option) \<times> DualStorage" where
  "GetUserByNickname ds nickname =
     (case sqlite_GetUserByNickname (sqliteDB ds) nickname of
        ((sqliteUserID, hash, errSqliteGetUser), sq) \<Rightarrow>
     (case mongodb_GetUserByNickname (mongoDB ds) nickname of
        ((mongoUserID, _, errMongoGetUser), mg) \<Rightarrow>
     (let ds' = ds\<lparr>sqliteDB := sq, mongoDB := mg\<rparr> in
      if errSqliteGetUser = None \<and> errMongoGetUser = None
      then ((sqliteUserID, hash, None), ds')
      else if errSqliteGetUser \<noteq> None \<and> errMongoGetUser \<noteq> None
      then ((0, '''', Some (Errorf (''SQLite error: '' @ fmt_v errSqliteGetUser @
                                    '', MongoDB error: '' @ fmt_v errMongoGetUser))), ds')
      else if errSqliteGetUser \<noteq> None
      then ((mongoUserID, '''', Some (Errorf (''SQLite error: '' @ fmt_v errSqliteGetUser))), ds')
      else if errMongoGetUser \<noteq> None
      then ((sqliteUserID, hash, Some (Errorf (''MongoDB error: '' @ fmt_v errMongoGetUser))), ds')
      else ((0, '''', Some (New ''unexpected error'')), ds'))))"

definition DeleteUserByNickname :: "DualStorage \<Rightarrow> string \<Rightarrow> error option \<times> DualStorage" where
  "DeleteUserByNickname ds nickname =
     (case sqlite_DeleteUserByNickname (sqliteDB ds) nickname of
        (Some err, sq) \<Rightarrow> (Some err, ds\<lparr>sqliteDB := sq\<rparr>)
      | (None, sq) \<Rightarrow>
          (case mongodb_DeleteUserByNickname (mongoDB ds) nickname of
             (Some err, mg) \<Rightarrow> (Some err, ds\<lparr>sqliteDB := sq, mongoDB := mg\<rparr>)
           | (None, mg) \<Rightarrow> (None, ds\<lparr>sqliteDB := sq, mongoDB := mg\<rparr>)))"


section \<open>Stores used as examples\<close>

text \<open>
  Two empty, reachable backends; the document backend's clock stands at 1700000000.
\<close>

definition empty_sqlite :: sqlite_Storage where
  "empty_sqlite = \<lparr>sq_users = [], sq_urls = [], sq_foreign_keys = True, sq_faults = []\<rparr>"

definition empty_mongo :: mongo_Storage where
  "empty_mongo =
     \<lparr>mg_users = [], mg_urls = [], mg_now = 1700000000, mg_counter = 0, mg_faults = []\<rparr>"

definition empty_store :: DualStorage where
  "empty_store = \<lparr>sqliteDB = empty_sqlite, mongoDB = empty_mongo\<rparr>"

text \<open>\<open>bob\<close> has registered and saved nothing.\<close>

definition bob_store :: DualStorage where
  "bob_store = snd (SaveUser empty_store ''bob'' ''h1'')"

text \<open>\<open>carol\<close> has registered (she is user 1) and saved one URL.\<close>

definition carol_store :: DualStorage where
  "carol_store =
     snd (SaveURL (snd (SaveUser empty_store ''carol'' ''h2'')) ''https://example.org'' ''ex'' 1)"

text \<open>The store of \<open>carol\<close> when the next call of the SQLite driver fails.\<close>

definition failover_store :: DualStorage where
  "failover_store =
     carol_store\<lparr>sqliteDB := (sqliteDB carol_store)\<lparr>sq_faults := [Some ''disk I/O error'']\<rparr>\<rparr>"

text \<open>
  \<open>alice\<close> was stored in the document backend with \<open>userID = 42\<close>, and the relational
  backend cannot be reached.
\<close>

definition alice_store :: DualStorage where
  "alice_store =
     \<lparr>sqliteDB = empty_sqlite\<lparr>sq_faults := [Some ''unable to open database file'']\<rparr>,
      mongoDB = snd (mongodb_SaveUser empty_mongo ''alice'' ''h3'' 42)\<rparr>"

text \<open>Neither backend can be reached.\<close>

definition down_store :: DualStorage where
  "down_store =
     \<lparr>sqliteDB = empty_sqlite\<lparr>sq_faults := [Some ''unable to open database file'']\<rparr>,
      mongoDB = empty_mongo\<lparr>mg_faults := [Some ''server selection timeout'']\<rparr>\<rparr>"


section \<open>Facts about the drivers\<close>

lemmas driver_defs = sq_call_def Prepare_def Begin_def LastInsertId_def QueryRow_def
  Exec_insert_url_def Exec_insert_user_def new_rowid_def Rollback_def Commit_def
  Exec_delete_urls_def Exec_delete_user_def
  mg_call_def NewObjectID_def StartSession_def CountDocuments_def FindOne_def
  matches_def user_field_def url_field_def

lemmas adapter_defs = sqlite_SaveURL_def sqlite_GetURL_def sqlite_SaveUser_def
  sqlite_GetUserByNickname_def sqlite_DeleteUserByNickname_def
  mongodb_SaveURL_def mongodb_GetURL_def mongodb_SaveUser_def mongodb_GetUserByNickname_def
  DeleteUserByNickname_session_def mongodb_DeleteUserByNickname_def

lemmas coordinator_defs = SaveURL_def GetURL_def SaveUser_def GetUserByNickname_def
  DeleteUserByNickname_def

lemmas empty_defs = empty_store_def empty_sqlite_def empty_mongo_def

lemma sq_call_healthy: "sq_faults s = [] \<Longrightarrow> sq_call s = (None, s)"
  by (simp add: sq_call_def)

lemma mg_call_healthy: "mg_faults s = [] \<Longrightarrow> mg_call s = (None, s)"
  by (simp add: mg_call_def)

lemma sq_call_tables:
  "sq_call s = (r, s') \<Longrightarrow>
     sq_users s' = sq_users s \<and> sq_urls s' = sq_urls s \<and> sq_foreign_keys s' = sq_foreign_keys s"
  by (auto simp: sq_call_def split: list.splits option.splits)

lemma mg_call_tables:
  "mg_call s = (r, s') \<Longrightarrow> mg_users s' = mg_users s \<and> mg_urls s' = mg_urls s"
  by (auto simp: mg_call_def split: list.splits option.splits)

lemma matches_nickname:
  "matches user_field (''nickname'', BString nickname) = (\<lambda>d. ud_nickname d = nickname)"
  by (rule ext) (simp add: matches_def user_field_def)

lemma matches_alias:
  "matches url_field (''alias'', BString a) = (\<lambda>d. ld_alias d = a)"
  by (rule ext) (simp add: matches_def url_field_def)

lemma matches_user_id_int64:
  "matches user_field (''_id'', BInt64 i) = (\<lambda>d. False)"
  by (rule ext) (simp add: matches_def user_field_def)

lemma bob_store_eq:
  "bob_store =
     \<lparr>sqliteDB =
        \<lparr>sq_users = [\<lparr>u_id = 1, u_nickname = ''bob'', u_password_hash = ''h1''\<rparr>],
         sq_urls = [], sq_foreign_keys = True, sq_faults = []\<rparr>,
      mongoDB =
        \<lparr>mg_users = [\<lparr>ud_id = \<lparr>oid_timestamp = 1700000000, oid_rest = 0\<rparr>,
                      ud_nickname = ''bob'', ud_password_hash = ''h1'', ud_user_id = 1\<rparr>],
         mg_urls = [], mg_now = 1700000000, mg_counter = 1, mg_faults = []\<rparr>\<rparr>"
  by (simp add: bob_store_def empty_defs driver_defs adapter_defs coordinator_defs)

lemma carol_store_eq:
  "carol_store =
     \<lparr>sqliteDB =
        \<lparr>sq_users = [\<lparr>u_id = 1, u_nickname = ''carol'', u_password_hash = ''h2''\<rparr>],
         sq_urls = [\<lparr>r_alias = ''ex'', r_url = ''https://example.org'', r_user_id = 1\<rparr>],
         sq_foreign_keys = True, sq_faults = []\<rparr>,
      mongoDB =
        \<lparr>mg_users = [\<lparr>ud_id = \<lparr>oid_timestamp = 1700000000, oid_rest = 0\<rparr>,
                      ud_nickname = ''carol'', ud_password_hash = ''h2'', ud_user_id = 1\<rparr>],
         mg_urls = [\<lparr>ld_id = \<lparr>oid_timestamp = 1700000000, oid_rest = 1\<rparr>,
                     ld_url = ''https://example.org'', ld_alias = ''ex'', ld_user_id = 1\<rparr>],
         mg_now = 1700000000, mg_counter = 2, mg_faults = []\<rparr>\<rparr>"
  by (simp add: carol_store_def empty_defs driver_defs adapter_defs coordinator_defs)

lemma alice_store_eq:
  "alice_store =
     \<lparr>sqliteDB =
        \<lparr>sq_users = [], sq_urls = [], sq_foreign_keys = True,
         sq_faults = [Some ''unable to open database file'']\<rparr>,
      mongoDB =
        \<lparr>mg_users = [\<lparr>ud_id = \<lparr>oid_timestamp = 1700000000, oid_rest = 0\<rparr>,
                      ud_nickname = ''alice'', ud_password_hash = ''h3'', ud_user_id = 42\<rparr>],
         mg_urls = [], mg_now = 1700000000, mg_counter = 1, mg_faults = []\<rparr>\<rparr>"
  by (simp add: alice_store_def empty_defs driver_defs adapter_defs)

lemma mongodb_GetURL_error_empty:
  "mongodb_GetURL m alias userID = ((url, Some err), m') \<Longrightarrow> url = ''''"
  by (auto simp: mongodb_GetURL_def split: prod.splits sum.splits if_splits)

section \<open>Reading a URL through the coordinator\<close>

text \<open>
  Claim C3. \<open>GetURL\<close> reads the relational backend first. When that read succeeds, its
  URL is the result and the document backend is left as it was: not one call of its
  driver is made, so nothing is taken from its list of coming outcomes. When the
  relational read fails, whatever the error, the result is the result of the document
  backend's \<open>GetURL\<close>: its URL, or the empty string and its error.
\<close>

theorem GetURL_relational_first:
  "(sqlite_GetURL (sqliteDB ds) alias userID = ((url, None), sq) \<longrightarrow>
      GetURL ds alias userID = ((url, None), ds\<lparr>sqliteDB := sq\<rparr>) \<and>
      mongoDB (snd (GetURL ds alias userID)) = mongoDB ds) \<and>
   (sqlite_GetURL (sqliteDB ds) alias userID = ((url, Some err), sq) \<longrightarrow>
      fst (GetURL ds alias userID) = fst (mongodb_GetURL (mongoDB ds) alias userID) \<and>
      mongoDB (snd (GetURL ds alias userID)) = snd (mongodb_GetURL (mongoDB ds) alias userID))"
  by (auto simp: GetURL_def split: prod.splits option.splits dest: mongodb_GetURL_error_empty)

theorem GetURL_relational_first_witness:
  "sqlite_GetURL (sqliteDB carol_store) ''ex'' 1 =
     ((''https://example.org'', None), sqliteDB carol_store) \<and>
   GetURL carol_store ''ex'' 1 = ((''https://example.org'', None), carol_store) \<and>
   sqlite_GetURL (sqliteDB failover_store) ''ex'' 1 =
     (('''', Some (Wrap ''storage.sqlite.GetURL: prepare existence check statement: ''
                    (Native ''disk I/O error''))), sqliteDB carol_store) \<and>
   fst (GetURL failover_store ''ex'' 1) = (''https://example.org'', None)"
proof -
  have found: "sqlite_GetURL (sqliteDB carol_store) ''ex'' 1 =
      ((''https://example.org'', None), sqliteDB carol_store)"
    by (simp add: carol_store_eq sqlite_GetURL_def driver_defs)
  have failed: "sqlite_GetURL (sqliteDB failover_store) ''ex'' 1 =
      (('''', Some (Wrap ''storage.sqlite.GetURL: prepare existence check statement: ''
                     (Native ''disk I/O error''))), sqliteDB carol_store)"
    by (simp add: failover_store_def carol_store_eq sqlite_GetURL_def driver_defs)
  have document: "fst (mongodb_GetURL (mongoDB failover_store) ''ex'' 1) =
      (''https://example.org'', None)"
    by (simp add: failover_store_def carol_store_eq mongodb_GetURL_def driver_defs)
  from GetURL_relational_first
         [of carol_store "''ex''" 1 "''https://example.org''" "sqliteDB carol_store"] found
  have "GetURL carol_store ''ex'' 1 = ((''https://example.org'', None), carol_store)"
    by simp
  moreover
  from GetURL_relational_first
         [of failover_store "''ex''" 1 "[]" "sqliteDB carol_store"
             "Wrap ''storage.sqlite.GetURL: prepare existence check statement: ''
                (Native ''disk I/O error'')"] failed document
  have "fst (GetURL failover_store ''ex'' 1) = (''https://example.org'', None)"
    by simp
  ultimately show ?thesis using found failed by simp
qed

section \<open>Looking a user up in both backends\<close>

text \<open>
  Claim C9. The \<open>default\<close> branch of the \<open>switch\<close> in \<open>GetUserByNickname\<close> is never
  taken. The result is fixed by which of the two lookups failed, in exactly four cases:
  both succeed, both fail, only SQLite fails, only MongoDB fails; the error returned is
  never the value \<open>errors.New("unexpected error")\<close>, nor an error with that message.
\<close>

theorem GetUserByNickname_four_cases:
  "fst (GetUserByNickname ds nickname) =
     (case (fst (sqlite_GetUserByNickname (sqliteDB ds) nickname),
            fst (mongodb_GetUserByNickname (mongoDB ds) nickname)) of
        ((sqliteUserID, hash, None), (mongoUserID, mongoHash, None)) \<Rightarrow> (sqliteUserID, hash, None)
      | ((sqliteUserID, hash, Some e1), (mongoUserID, mongoHash, Some e2)) \<Rightarrow>
          (0, '''', Some (Errorf (''SQLite error: '' @ Error e1 @ '', MongoDB error: '' @ Error e2)))
      | ((sqliteUserID, hash, Some e1), (mongoUserID, mongoHash, None)) \<Rightarrow>
          (mongoUserID, '''', Some (Errorf (''SQLite error: '' @ Error e1)))
      | ((sqliteUserID, hash, None), (mongoUserID, mongoHash, Some e2)) \<Rightarrow>
          (sqliteUserID, hash, Some (Errorf (''MongoDB error: '' @ Error e2)))) \<and>
   snd (snd (fst (GetUserByNickname ds nickname))) \<noteq> Some (New ''unexpected error'') \<and>
   fmt_v (snd (snd (fst (GetUserByNickname ds nickname)))) \<noteq> ''unexpected error''"
  by (auto simp: GetUserByNickname_def Let_def split: prod.splits option.splits)

theorem GetUserByNickname_four_cases_witness:
  "fst (GetUserByNickname carol_store ''carol'') = (1, ''h2'', None) \<and>
   snd (snd (fst (GetUserByNickname carol_store ''carol''))) \<noteq> Some (New ''unexpected error'')"
proof -
  have "fst (sqlite_GetUserByNickname (sqliteDB carol_store) ''carol'') = (1, ''h2'', None)"
    by (simp add: carol_store_eq sqlite_GetUserByNickname_def driver_defs)
  moreover have "fst (mongodb_GetUserByNickname (mongoDB carol_store) ''carol'') =
      (1700000000, ''h2'', None)"
    by (simp add: carol_store_eq mongodb_GetUserByNickname_def driver_defs)
  ultimately show ?thesis
    using GetUserByNickname_four_cases [of carol_store "''carol''"] by simp
qed

text \<open>
  Claim C7. When both lookups fail, \<open>GetUserByNickname\<close> returns the identifier 0, the
  empty password hash and one error whose message names both causes,
  \<open>SQLite error: <cause>, MongoDB error: <cause>\<close>. The error is made with \<open>%v\<close>, so
  it wraps nothing: it is of none of the domain kinds, whatever the two causes were.
\<close>

theorem GetUserByNickname_both_fail:
  assumes "snd (snd (fst (sqlite_GetUserByNickname (sqliteDB ds) nickname))) = Some e1"
    and "snd (snd (fst (mongodb_GetUserByNickname (mongoDB ds) nickname))) = Some e2"
  shows "fst (GetUserByNickname ds nickname) =
           (0, '''', Some (Errorf (''SQLite error: '' @ Error e1 @
                                   '', MongoDB error: '' @ Error e2))) \<and>
         \<not> NotFound (Errorf (''SQLite error: '' @ Error e1 @ '', MongoDB error: '' @ Error e2)) \<and>
         \<not> AlreadyExists (Errorf (''SQLite error: '' @ Error e1 @ '', MongoDB error: '' @ Error e2)) \<and>
         \<not> Unauthorized (Errorf (''SQLite error: '' @ Error e1 @ '', MongoDB error: '' @ Error e2))"
  using assms
  by (auto simp: GetUserByNickname_def Let_def NotFound_def AlreadyExists_def Unauthorized_def
           split: prod.splits)

lemma down_store_lookups:
  "snd (snd (fst (sqlite_GetUserByNickname (sqliteDB down_store) ''alice''))) =
     Some (Wrap ''storage.sqlite.GetUserByNickname: prepare statement: ''
             (Native ''unable to open database file''))"
  "snd (snd (fst (mongodb_GetUserByNickname (mongoDB down_store) ''alice''))) =
     Some (Wrap ''mongodb.GetUserByNickname: find document: ''
             (Native ''server selection timeout''))"
  by (simp_all add: down_store_def empty_defs sqlite_GetUserByNickname_def
        mongodb_GetUserByNickname_def driver_defs)

theorem GetUserByNickname_both_fail_witness:
  "snd (snd (fst (sqlite_GetUserByNickname (sqliteDB down_store) ''alice''))) =
     Some (Wrap ''storage.sqlite.GetUserByNickname: prepare statement: ''
             (Native ''unable to open database file'')) \<and>
   snd (snd (fst (mongodb_GetUserByNickname (mongoDB down_store) ''alice''))) =
     Some (Wrap ''mongodb.GetUserByNickname: find document: ''
             (Native ''server selection timeout'')) \<and>
   fst (GetUserByNickname down_store ''alice'') =
     (0, '''', Some (Errorf ''SQLite error: storage.sqlite.GetUserByNickname: prepare statement: unable to open database file, MongoDB error: mongodb.GetUserByNickname: find document: server selection timeout''))"
  using GetUserByNickname_both_fail [OF down_store_lookups] down_store_lookups
  by simp

text \<open>
  Claim C1, as amended. When the relational lookup fails and the document lookup succeeds,
  \<open>GetUserByNickname\<close> returns the identifier that the document adapter returns, the
  empty password hash and an error whose message is \<open>SQLite error: <cause>\<close>. The
  identifier is the creation time, in seconds, of the ObjectID of the first document with
  that nickname; the field \<open>user_id\<close> of the document is not read.
\<close>

theorem GetUserByNickname_only_relational_fails:
  assumes "snd (snd (fst (sqlite_GetUserByNickname (sqliteDB ds) nickname))) = Some e1"
    and "fst (mongodb_GetUserByNickname (mongoDB ds) nickname) = (mongoUserID, h, None)"
  shows "fst (GetUserByNickname ds nickname) =
           (mongoUserID, '''', Some (Errorf (''SQLite error: '' @ Error e1))) \<and>
         (\<exists>doc. find (\<lambda>d. ud_nickname d = nickname) (mg_users (mongoDB ds)) = Some doc \<and>
                mongoUserID = ucast (oid_timestamp (ud_id doc)))"
proof -
  have "fst (GetUserByNickname ds nickname) =
           (mongoUserID, '''', Some (Errorf (''SQLite error: '' @ Error e1)))"
    using assms by (auto simp: GetUserByNickname_def Let_def split: prod.splits)
  moreover
  have "\<exists>doc. find (\<lambda>d. ud_nickname d = nickname) (mg_users (mongoDB ds)) = Some doc \<and>
                mongoUserID = ucast (oid_timestamp (ud_id doc))"
    using assms(2)
    by (auto simp: mongodb_GetUserByNickname_def FindOne_def Let_def matches_nickname
             split: prod.splits option.splits sum.splits if_splits)
  ultimately show ?thesis by simp
qed

lemma alice_store_lookups:
  "snd (snd (fst (sqlite_GetUserByNickname (sqliteDB alice_store) ''alice''))) =
     Some (Wrap ''storage.sqlite.GetUserByNickname: prepare statement: ''
             (Native ''unable to open database file''))"
  "fst (mongodb_GetUserByNickname (mongoDB alice_store) ''alice'') = (1700000000, ''h3'', None)"
  by (simp_all add: alice_store_eq sqlite_GetUserByNickname_def
        mongodb_GetUserByNickname_def driver_defs)

theorem GetUserByNickname_only_relational_fails_witness:
  "snd (snd (fst (sqlite_GetUserByNickname (sqliteDB alice_store) ''alice''))) =
     Some (Wrap ''storage.sqlite.GetUserByNickname: prepare statement: ''
             (Native ''unable to open database file'')) \<and>
   fst (mongodb_GetUserByNickname (mongoDB alice_store) ''alice'') = (1700000000, ''h3'', None) \<and>
   fst (GetUserByNickname alice_store ''alice'') =
     (1700000000, '''', Some (Errorf ''SQLite error: storage.sqlite.GetUserByNickname: prepare statement: unable to open database file''))"
  using GetUserByNickname_only_relational_fails [OF alice_store_lookups] alice_store_lookups
  by simp

text \<open>
  Claim C1 as stated fails: \<open>alice\<close> is stored in the document backend with
  \<open>userID = 42\<close> by \<open>mongodb.SaveUser\<close>, the relational backend cannot be reached, and
  \<open>GetUserByNickname\<close> returns 1700000000, the second at which the document was
  inserted, not 42.
\<close>

theorem GetUserByNickname_stored_userID_counterexample:
  "map ud_nickname (mg_users (mongoDB alice_store)) = [''alice''] \<and>
   map ud_user_id (mg_users (mongoDB alice_store)) = [42] \<and>
   snd (snd (fst (sqlite_GetUserByNickname (sqliteDB alice_store) ''alice''))) \<noteq> None \<and>
   snd (snd (fst (mongodb_GetUserByNickname (mongoDB alice_store) ''alice''))) = None \<and>
   fst (GetUserByNickname alice_store ''alice'') =
     (1700000000, '''', Some (Errorf ''SQLite error: storage.sqlite.GetUserByNickname: prepare statement: unable to open database file'')) \<and>
   fst (fst (GetUserByNickname alice_store ''alice'')) \<noteq> 42"
  by (simp add: alice_store_eq GetUserByNickname_def sqlite_GetUserByNickname_def
        mongodb_GetUserByNickname_def driver_defs)

section \<open>Reading a URL from one backend\<close>

lemma find_filter: "find P xs = (case filter P xs of [] \<Rightarrow> None | x # _ \<Rightarrow> Some x)"
  by (induction xs) auto

lemma find_conj: "find P xs = Some x \<Longrightarrow> Q x \<Longrightarrow> find (\<lambda>y. P y \<and> Q y) xs = Some x"
  by (induction xs) (auto split: if_splits)

lemma find_snoc:
  "find P (xs @ [x]) = (case find P xs of None \<Rightarrow> (if P x then Some x else None) | Some y \<Rightarrow> Some y)"
  by (induction xs) auto

lemma find_None_iff_map: "(find (\<lambda>y. f y = a) xs = None) = (a \<notin> set (map f xs))"
  by (induction xs) auto

lemma QueryRow_first:
  "sq_faults s = [] \<Longrightarrow>
     QueryRow s (map f (filter P xs)) =
       (case find P xs of None \<Rightarrow> (Inl ErrNoRows, s) | Some x \<Rightarrow> (Inr (f x), s))"
  by (simp add: QueryRow_def sq_call_healthy find_filter split: list.splits)

lemma sqlite_GetURL_healthy:
  assumes "sq_faults s = []"
  shows "sqlite_GetURL s alias userID =
     ((case find (\<lambda>r. r_alias r = alias) (sq_urls s) of
         None \<Rightarrow> ('''', Some ErrURLNotFound)
       | Some r \<Rightarrow> if r_user_id r \<noteq> userID then ('''', Some ErrUnauthorized)
                   else (r_url r, None)), s)"
proof (cases "find (\<lambda>r. r_alias r = alias) (sq_urls s)")
  case None
  then show ?thesis
    using assms by (simp add: sqlite_GetURL_def Prepare_def sq_call_healthy QueryRow_first)
next
  case (Some r)
  show ?thesis
  proof (cases "r_user_id r = userID")
    case True
    with Some have "find (\<lambda>r. r_alias r = alias \<and> r_user_id r = userID) (sq_urls s) = Some r"
      by (simp add: find_conj)
    with Some True show ?thesis
      using assms by (simp add: sqlite_GetURL_def Prepare_def sq_call_healthy QueryRow_first)
  next
    case False
    with Some show ?thesis
      using assms by (simp add: sqlite_GetURL_def Prepare_def sq_call_healthy QueryRow_first)
  qed
qed

lemma mongodb_GetURL_healthy:
  assumes "mg_faults m = []"
  shows "mongodb_GetURL m alias userID =
     ((case find (\<lambda>d. ld_alias d = alias) (mg_urls m) of
         None \<Rightarrow> ('''', Some ErrURLNotFound)
       | Some d \<Rightarrow> if ld_user_id d \<noteq> userID then ('''', Some ErrUnauthorized)
                   else (ld_url d, None)), m)"
  using assms
  by (simp add: mongodb_GetURL_def FindOne_def mg_call_healthy matches_alias split: option.splits)

text \<open>
  Claim C6. With a reachable database, \<open>GetURL\<close> of either adapter makes three checks on
  the first record with the alias: there is none, and the result is \<open>ErrURLNotFound\<close>;
  its owner is not the requesting user, and the result is \<open>ErrUnauthorized\<close>; otherwise
  the result is its URL.
\<close>

theorem GetURL_three_step_check:
  "(sq_faults s = [] \<longrightarrow>
      fst (sqlite_GetURL s alias userID) =
        (case find (\<lambda>r. r_alias r = alias) (sq_urls s) of
           None \<Rightarrow> ('''', Some ErrURLNotFound)
         | Some r \<Rightarrow> if r_user_id r \<noteq> userID then ('''', Some ErrUnauthorized)
                     else (r_url r, None))) \<and>
   (mg_faults m = [] \<longrightarrow>
      fst (mongodb_GetURL m alias userID) =
        (case find (\<lambda>d. ld_alias d = alias) (mg_urls m) of
           None \<Rightarrow> ('''', Some ErrURLNotFound)
         | Some d \<Rightarrow> if ld_user_id d \<noteq> userID then ('''', Some ErrUnauthorized)
                     else (ld_url d, None)))"
  by (simp add: sqlite_GetURL_healthy mongodb_GetURL_healthy)

theorem GetURL_three_step_check_witness:
  "sq_faults (sqliteDB carol_store) = [] \<and> mg_faults (mongoDB carol_store) = [] \<and>
   fst (sqlite_GetURL (sqliteDB carol_store) ''ex'' 1) = (''https://example.org'', None) \<and>
   fst (mongodb_GetURL (mongoDB carol_store) ''ex'' 1) = (''https://example.org'', None) \<and>
   fst (sqlite_GetURL (sqliteDB carol_store) ''ex'' 2) = ('''', Some ErrUnauthorized) \<and>
   fst (mongodb_GetURL (mongoDB carol_store) ''ex'' 2) = ('''', Some ErrUnauthorized) \<and>
   fst (sqlite_GetURL (sqliteDB carol_store) ''no'' 1) = ('''', Some ErrURLNotFound) \<and>
   fst (mongodb_GetURL (mongoDB carol_store) ''no'' 1) = ('''', Some ErrURLNotFound)"
  using GetURL_three_step_check [of "sqliteDB carol_store" "''ex''" 1 "mongoDB carol_store"]
        GetURL_three_step_check [of "sqliteDB carol_store" "''ex''" 2 "mongoDB carol_store"]
        GetURL_three_step_check [of "sqliteDB carol_store" "''no''" 1 "mongoDB carol_store"]
  by (simp add: carol_store_eq)

section \<open>Saving a URL\<close>

lemma sqlite_SaveURL_healthy_fresh:
  assumes "sq_faults s = []" and "alias \<notin> set (map r_alias (sq_urls s))"
    and "userID \<in> set (map u_id (sq_users s))"
  shows "sqlite_SaveURL s urlToSave alias userID =
     (None, s\<lparr>sq_urls := sq_urls s @
                [\<lparr>r_alias = alias, r_url = urlToSave, r_user_id = userID\<rparr>]\<rparr>)"
  using assms
  by (simp add: sqlite_SaveURL_def Prepare_def LastInsertId_def Exec_insert_url_def
        sq_call_healthy)

lemma mongodb_SaveURL_healthy_fresh:
  assumes "mg_faults m = []" and "alias \<notin> set (map ld_alias (mg_urls m))"
  shows "\<exists>oid. mongodb_SaveURL m urlToSave alias userID =
     ((Some oid, None),
      m\<lparr>mg_counter := mg_counter m + 1,
        mg_urls := mg_urls m @
          [\<lparr>ld_id = oid, ld_url = urlToSave, ld_alias = alias, ld_user_id = userID\<rparr>]\<rparr>)"
proof -
  have "filter (\<lambda>d. ld_alias d = alias) (mg_urls m) = []"
    using assms(2) by (auto simp: filter_empty_conv)
  then show ?thesis
    using assms(1)
    by (simp add: mongodb_SaveURL_def CountDocuments_def mg_call_healthy matches_alias
          NewObjectID_def)
qed

text \<open>
  Claim C8. With both backends reachable, an owner that exists and an alias that neither
  backend holds, \<open>SaveURL\<close> succeeds and \<open>GetURL\<close> with the same alias and owner then
  returns the URL that was saved, with no error; the document backend holds it too.
\<close>

theorem SaveURL_GetURL_roundtrip:
  assumes "sq_faults (sqliteDB ds) = []" and "mg_faults (mongoDB ds) = []"
    and "userID \<in> set (map u_id (sq_users (sqliteDB ds)))"
    and "alias \<notin> set (map r_alias (sq_urls (sqliteDB ds)))"
    and "alias \<notin> set (map ld_alias (mg_urls (mongoDB ds)))"
  shows "fst (SaveURL ds targetURL alias userID) = None \<and>
         fst (GetURL (snd (SaveURL ds targetURL alias userID)) alias userID) = (targetURL, None) \<and>
         fst (mongodb_GetURL (mongoDB (snd (SaveURL ds targetURL alias userID))) alias userID) =
           (targetURL, None)"
proof -
  let ?sq = "(sqliteDB ds)\<lparr>sq_urls := sq_urls (sqliteDB ds) @
                [\<lparr>r_alias = alias, r_url = targetURL, r_user_id = userID\<rparr>]\<rparr>"
  have sq: "sqlite_SaveURL (sqliteDB ds) targetURL alias userID = (None, ?sq)"
    using assms by (simp add: sqlite_SaveURL_healthy_fresh)
  obtain oid where mg: "mongodb_SaveURL (mongoDB ds) targetURL alias userID =
     ((Some oid, None),
      (mongoDB ds)\<lparr>mg_counter := mg_counter (mongoDB ds) + 1,
        mg_urls := mg_urls (mongoDB ds) @
          [\<lparr>ld_id = oid, ld_url = targetURL, ld_alias = alias, ld_user_id = userID\<rparr>]\<rparr>)"
    using mongodb_SaveURL_healthy_fresh [OF assms(2) assms(5)] by blast
  let ?mg = "(mongoDB ds)\<lparr>mg_counter := mg_counter (mongoDB ds) + 1,
        mg_urls := mg_urls (mongoDB ds) @
          [\<lparr>ld_id = oid, ld_url = targetURL, ld_alias = alias, ld_user_id = userID\<rparr>]\<rparr>"
  have saved: "SaveURL ds targetURL alias userID = (None, ds\<lparr>sqliteDB := ?sq, mongoDB := ?mg\<rparr>)"
    by (simp add: SaveURL_def sq mg)
  have fresh_sq: "find (\<lambda>r. r_alias r = alias) (sq_urls (sqliteDB ds)) = None"
    using assms(4) by (simp add: find_None_iff_map)
  have fresh_mg: "find (\<lambda>d. ld_alias d = alias) (mg_urls (mongoDB ds)) = None"
    using assms(5) by (simp add: find_None_iff_map)
  have "sqlite_GetURL ?sq alias userID = ((targetURL, None), ?sq)"
    using assms(1) by (simp add: sqlite_GetURL_healthy find_snoc fresh_sq)
  moreover have "mongodb_GetURL ?mg alias userID = ((targetURL, None), ?mg)"
    using assms(2) by (simp add: mongodb_GetURL_healthy find_snoc fresh_mg)
  ultimately show ?thesis
    by (simp add: saved GetURL_def)
qed

theorem SaveURL_GetURL_roundtrip_witness:
  "sq_faults (sqliteDB bob_store) = [] \<and> mg_faults (mongoDB bob_store) = [] \<and>
   1 \<in> set (map u_id (sq_users (sqliteDB bob_store))) \<and>
   ''ex'' \<notin> set (map r_alias (sq_urls (sqliteDB bob_store))) \<and>
   ''ex'' \<notin> set (map ld_alias (mg_urls (mongoDB bob_store))) \<and>
   fst (SaveURL bob_store ''https://example.org'' ''ex'' 1) = None \<and>
   fst (GetURL (snd (SaveURL bob_store ''https://example.org'' ''ex'' 1)) ''ex'' 1) =
     (''https://example.org'', None)"
proof -
  have h1: "sq_faults (sqliteDB bob_store) = []"
    and h2: "mg_faults (mongoDB bob_store) = []"
    and h3: "1 \<in> set (map u_id (sq_users (sqliteDB bob_store)))"
    and h4: "''ex'' \<notin> set (map r_alias (sq_urls (sqliteDB bob_store)))"
    and h5: "''ex'' \<notin> set (map ld_alias (mg_urls (mongoDB bob_store)))"
    by (simp_all add: bob_store_eq)
  from SaveURL_GetURL_roundtrip [OF h1 h2 h3 h4 h5, of "''https://example.org''"] h1 h2 h3 h4 h5
  show ?thesis by simp
qed

lemma Exec_insert_url_existing:
  assumes "alias \<in> set (map r_alias (sq_urls s))"
  shows "\<exists>err s'. Exec_insert_url s urlToSave alias userID = (Some err, s') \<and>
           sq_users s' = sq_users s \<and> sq_urls s' = sq_urls s \<and>
           (sq_faults s = [] \<longrightarrow>
              err = SqliteError ErrConstraintUnique ''UNIQUE constraint failed: urls.alias'')"
  using assms
  by (auto simp: Exec_insert_url_def sq_call_def split: list.splits option.splits)

lemma sqlite_SaveURL_existing:
  assumes "alias \<in> set (map r_alias (sq_urls s))"
  shows "\<exists>err s'. sqlite_SaveURL s urlToSave alias userID = (Some err, s') \<and>
           sq_users s' = sq_users s \<and> sq_urls s' = sq_urls s \<and>
           (sq_faults s = [] \<longrightarrow> err = Wrap ''storage.sqlite.SaveURL: '' ErrURLExists)"
proof (cases "Prepare s")
  case (Pair r s1)
  note prep = sq_call_tables [OF Pair [unfolded Prepare_def]]
  show ?thesis
  proof (cases r)
    case (Some err)
    with Pair prep show ?thesis
      by (auto simp: sqlite_SaveURL_def Prepare_def sq_call_def split: list.splits option.splits)
  next
    case None
    have "alias \<in> set (map r_alias (sq_urls s1))"
      using assms prep by simp
    from Exec_insert_url_existing [OF this, of urlToSave userID]
    obtain err s' where ex: "Exec_insert_url s1 urlToSave alias userID = (Some err, s')"
      and tabs: "sq_users s' = sq_users s1" "sq_urls s' = sq_urls s1"
      and kind: "sq_faults s1 = [] \<longrightarrow>
              err = SqliteError ErrConstraintUnique ''UNIQUE constraint failed: urls.alias''"
      by blast
    have s1: "sq_faults s = [] \<Longrightarrow> s1 = s"
      using Pair by (simp add: Prepare_def sq_call_healthy)
    show ?thesis
      using Pair None ex tabs kind prep s1
      by (auto simp: sqlite_SaveURL_def split: error.splits sqlite_code.splits)
  qed
qed

text \<open>
  Claim C4. When the relational backend already holds the alias, \<open>SaveURL\<close> fails, the
  document backend is not written (no call of its driver is made) and the tables of the
  relational backend are as before; when the database is reached, the error is
  \<open>ErrURLExists\<close> wrapped by the relational adapter, of kind \<open>AlreadyExists\<close>.
\<close>

theorem SaveURL_existing_alias:
  assumes "alias \<in> set (map r_alias (sq_urls (sqliteDB ds)))"
  shows "fst (SaveURL ds urlToSave alias userID) \<noteq> None \<and>
         mongoDB (snd (SaveURL ds urlToSave alias userID)) = mongoDB ds \<and>
         sq_users (sqliteDB (snd (SaveURL ds urlToSave alias userID))) = sq_users (sqliteDB ds) \<and>
         sq_urls (sqliteDB (snd (SaveURL ds urlToSave alias userID))) = sq_urls (sqliteDB ds) \<and>
         (sq_faults (sqliteDB ds) = [] \<longrightarrow>
            fst (SaveURL ds urlToSave alias userID) =
              Some (Wrap ''storage.sqlite.SaveURL: '' ErrURLExists) \<and>
            AlreadyExists (Wrap ''storage.sqlite.SaveURL: '' ErrURLExists))"
proof -
  from sqlite_SaveURL_existing [OF assms, of urlToSave userID]
  obtain err s' where "sqlite_SaveURL (sqliteDB ds) urlToSave alias userID = (Some err, s')"
    and "sq_users s' = sq_users (sqliteDB ds)" and "sq_urls s' = sq_urls (sqliteDB ds)"
    and "sq_faults (sqliteDB ds) = [] \<longrightarrow> err = Wrap ''storage.sqlite.SaveURL: '' ErrURLExists"
    by blast
  then show ?thesis
    by (simp add: SaveURL_def AlreadyExists_def)
qed

theorem SaveURL_existing_alias_witness:
  "''ex'' \<in> set (map r_alias (sq_urls (sqliteDB carol_store))) \<and>
   sq_faults (sqliteDB carol_store) = [] \<and>
   fst (SaveURL carol_store ''https://isabelle.in.tum.de'' ''ex'' 1) =
     Some (Wrap ''storage.sqlite.SaveURL: '' ErrURLExists) \<and>
   mongoDB (snd (SaveURL carol_store ''https://isabelle.in.tum.de'' ''ex'' 1)) =
     mongoDB carol_store"
proof -
  have held: "''ex'' \<in> set (map r_alias (sq_urls (sqliteDB carol_store)))"
    by (simp add: carol_store_eq)
  have healthy: "sq_faults (sqliteDB carol_store) = []"
    by (simp add: carol_store_eq)
  from SaveURL_existing_alias [OF held, of "''https://isabelle.in.tum.de''" 1] held healthy
  show ?thesis by simp
qed

section \<open>Deleting a user\<close>

lemma sqlite_DeleteUserByNickname_rollback:
  assumes "sqlite_DeleteUserByNickname s nickname = (Some err, s')"
  shows "sq_users s' = sq_users s \<and> sq_urls s' = sq_urls s"
proof (cases "Begin s")
  case (Pair r s0)
  note began = sq_call_tables [OF Pair [unfolded Begin_def]]
  show ?thesis
    using assms Pair began
    by (auto simp: sqlite_DeleteUserByNickname_def Rollback_def Commit_def
             split: prod.splits option.splits sum.splits if_splits)
qed

lemma QueryRow_tables:
  "QueryRow s rows = (r, s') \<Longrightarrow>
     sq_users s' = sq_users s \<and> sq_urls s' = sq_urls s \<and> sq_foreign_keys s' = sq_foreign_keys s"
  by (auto simp: QueryRow_def split: prod.splits option.splits list.splits
           dest!: sq_call_tables)

lemma QueryRow_Inr:
  "QueryRow s (map f (filter P xs)) = (Inr x, s') \<Longrightarrow> \<exists>y. find P xs = Some y \<and> x = f y"
  by (auto simp: QueryRow_def find_filter split: prod.splits option.splits list.splits)

lemma sqlite_DeleteUserByNickname_no_urls:
  assumes user: "find (\<lambda>u. u_nickname u = nickname) (sq_users s) = Some u"
    and none: "filter (\<lambda>r. r_user_id r = u_id u) (sq_urls s) = []"
  shows "fst (sqlite_DeleteUserByNickname s nickname) \<noteq> None"
proof (cases "Begin s")
  case (Pair r s0)
  note began = sq_call_tables [OF Pair [unfolded Begin_def]]
  show ?thesis
  proof (cases r)
    case (Some err)
    with Pair show ?thesis by (simp add: sqlite_DeleteUserByNickname_def)
  next
    case None
    show ?thesis
    proof (cases "QueryRow s0 (map u_id (filter (\<lambda>u. u_nickname u = nickname) (sq_users s0)))")
      case (Pair q t1)
      note first = Pair
      show ?thesis
      proof (cases q)
        case (Inl err)
        with \<open>Begin s = (r, s0)\<close> None first show ?thesis
          by (simp add: sqlite_DeleteUserByNickname_def)
      next
        case (Inr userID)
        have "\<exists>y. find (\<lambda>u. u_nickname u = nickname) (sq_users s0) = Some y \<and> userID = u_id y"
          using first Inr by (simp add: QueryRow_Inr)
        with user began have uid: "userID = u_id u"
          by auto
        have t1: "sq_urls t1 = sq_urls s"
          using QueryRow_tables [OF first] began by simp
        have count: "filter (\<lambda>r. r_user_id r = userID) (sq_urls t1) = []"
          using none uid t1 by simp
        show ?thesis
          using \<open>Begin s = (r, s0)\<close> None first Inr count
          by (auto simp: sqlite_DeleteUserByNickname_def QueryRow_def
                   split: prod.splits option.splits sum.splits)
      qed
    qed
  qed
qed

text \<open>
  Claim C5. Whenever the relational cascade delete returns an error, the two tables are
  what they were before the call: the deferred rollback undoes the transaction. And it
  does return an error for a user who owns no URL, so the coordinator's
  \<open>DeleteUserByNickname\<close> returns that error too, the user is still present in the
  relational backend and the document backend was not called.
\<close>

theorem DeleteUserByNickname_no_urls_rolled_back:
  "(fst (sqlite_DeleteUserByNickname s nickname) \<noteq> None \<longrightarrow>
      sq_users (snd (sqlite_DeleteUserByNickname s nickname)) = sq_users s \<and>
      sq_urls (snd (sqlite_DeleteUserByNickname s nickname)) = sq_urls s) \<and>
   (find (\<lambda>u. u_nickname u = nickname) (sq_users (sqliteDB ds)) = Some u \<and>
    filter (\<lambda>r. r_user_id r = u_id u) (sq_urls (sqliteDB ds)) = [] \<longrightarrow>
      fst (sqlite_DeleteUserByNickname (sqliteDB ds) nickname) \<noteq> None \<and>
      fst (DeleteUserByNickname ds nickname) \<noteq> None \<and>
      sq_users (sqliteDB (snd (DeleteUserByNickname ds nickname))) = sq_users (sqliteDB ds) \<and>
      sq_urls (sqliteDB (snd (DeleteUserByNickname ds nickname))) = sq_urls (sqliteDB ds) \<and>
      mongoDB (snd (DeleteUserByNickname ds nickname)) = mongoDB ds)"
proof -
  have rolled: "sq_users (snd (sqlite_DeleteUserByNickname s nickname)) = sq_users s \<and>
      sq_urls (snd (sqlite_DeleteUserByNickname s nickname)) = sq_urls s"
    if "fst (sqlite_DeleteUserByNickname s nickname) \<noteq> None" for s
    using that sqlite_DeleteUserByNickname_rollback [of s nickname]
    by (cases "sqlite_DeleteUserByNickname s nickname") auto
  have "fst (DeleteUserByNickname ds nickname) \<noteq> None \<and>
      sq_users (sqliteDB (snd (DeleteUserByNickname ds nickname))) = sq_users (sqliteDB ds) \<and>
      sq_urls (sqliteDB (snd (DeleteUserByNickname ds nickname))) = sq_urls (sqliteDB ds) \<and>
      mongoDB (snd (DeleteUserByNickname ds nickname)) = mongoDB ds"
    if "fst (sqlite_DeleteUserByNickname (sqliteDB ds) nickname) \<noteq> None"
    using that rolled [of "sqliteDB ds"]
    by (cases "sqlite_DeleteUserByNickname (sqliteDB ds) nickname")
       (auto simp: DeleteUserByNickname_def)
  then show ?thesis
    using rolled [of s] sqlite_DeleteUserByNickname_no_urls [of nickname "sqliteDB ds" u]
    by blast
qed

theorem DeleteUserByNickname_no_urls_rolled_back_witness:
  "find (\<lambda>u. u_nickname u = ''bob'') (sq_users (sqliteDB bob_store)) =
     Some \<lparr>u_id = 1, u_nickname = ''bob'', u_password_hash = ''h1''\<rparr> \<and>
   filter (\<lambda>r. r_user_id r = 1) (sq_urls (sqliteDB bob_store)) = [] \<and>
   fst (DeleteUserByNickname bob_store ''bob'') =
     Some (Errorf ''storage.sqlite.DeleteUserByNickname: no URLs found for user'') \<and>
   sq_users (sqliteDB (snd (DeleteUserByNickname bob_store ''bob''))) =
     [\<lparr>u_id = 1, u_nickname = ''bob'', u_password_hash = ''h1''\<rparr>] \<and>
   mongoDB (snd (DeleteUserByNickname bob_store ''bob'')) = mongoDB bob_store"
proof -
  have user: "find (\<lambda>u. u_nickname u = ''bob'') (sq_users (sqliteDB bob_store)) =
      Some \<lparr>u_id = 1, u_nickname = ''bob'', u_password_hash = ''h1''\<rparr>"
    and none: "filter (\<lambda>r. r_user_id r = 1) (sq_urls (sqliteDB bob_store)) = []"
    and users: "sq_users (sqliteDB bob_store) =
      [\<lparr>u_id = 1, u_nickname = ''bob'', u_password_hash = ''h1''\<rparr>]"
    by (simp_all add: bob_store_eq)
  have error: "fst (DeleteUserByNickname bob_store ''bob'') =
      Some (Errorf ''storage.sqlite.DeleteUserByNickname: no URLs found for user'')"
    by (simp add: bob_store_eq DeleteUserByNickname_def sqlite_DeleteUserByNickname_def
          driver_defs)
  from DeleteUserByNickname_no_urls_rolled_back
         [of "sqliteDB bob_store" "''bob''" bob_store
             "\<lparr>u_id = 1, u_nickname = ''bob'', u_password_hash = ''h1''\<rparr>"]
       user none users error
  show ?thesis by simp
qed

text \<open>
  Claim C10. When no row of the relational backend has the nickname, the coordinator's
  \<open>DeleteUserByNickname\<close> returns an error that is not \<open>NotFound\<close> (nor of any other
  domain kind): with a reachable database it is \<open>sql.ErrNoRows\<close> wrapped by the
  relational adapter, which never maps it to \<open>ErrUserNotFound\<close>. The coordinator stops
  there: the document backend is as it was, no call of its driver was made.
\<close>

theorem DeleteUserByNickname_absent_user:
  assumes "nickname \<notin> set (map u_nickname (sq_users (sqliteDB ds)))"
  shows "\<exists>err. fst (DeleteUserByNickname ds nickname) = Some err \<and>
           \<not> NotFound err \<and> \<not> AlreadyExists err \<and> \<not> Unauthorized err \<and>
           mongoDB (snd (DeleteUserByNickname ds nickname)) = mongoDB ds \<and>
           (sq_faults (sqliteDB ds) = [] \<longrightarrow>
              err = Wrap ''storage.sqlite.DeleteUserByNickname: execute get user ID statement: ''
                      ErrNoRows)"
proof -
  have none: "filter (\<lambda>u. u_nickname u = nickname) (sq_users (sqliteDB ds)) = []"
    using assms by (auto simp: filter_empty_conv)
  show ?thesis
    by (auto simp: DeleteUserByNickname_def sqlite_DeleteUserByNickname_def Begin_def
          QueryRow_def sq_call_def none NotFound_def AlreadyExists_def Unauthorized_def
          split: list.splits option.splits)
qed

theorem DeleteUserByNickname_absent_user_witness:
  "''dave'' \<notin> set (map u_nickname (sq_users (sqliteDB carol_store))) \<and>
   sq_faults (sqliteDB carol_store) = [] \<and>
   fst (DeleteUserByNickname carol_store ''dave'') =
     Some (Wrap ''storage.sqlite.DeleteUserByNickname: execute get user ID statement: ''
             ErrNoRows) \<and>
   mongoDB (snd (DeleteUserByNickname carol_store ''dave'')) = mongoDB carol_store"
proof -
  have absent: "''dave'' \<notin> set (map u_nickname (sq_users (sqliteDB carol_store)))"
    by (simp add: carol_store_eq)
  have healthy: "sq_faults (sqliteDB carol_store) = []"
    by (simp add: carol_store_eq)
  from DeleteUserByNickname_absent_user [OF absent] healthy absent
  show ?thesis by auto
qed

lemma delete_first_never: "delete_first (\<lambda>d. False) ds = ds"
  by (induction ds) auto

text \<open>
  The document adapter's \<open>DeleteUserByNickname\<close> never removes a user document,
  whatever the store and the nickname.
\<close>

lemma mongodb_DeleteUserByNickname_keeps_users:
  "mg_users (snd (mongodb_DeleteUserByNickname s nickname)) = mg_users s"
  by (auto simp: mongodb_DeleteUserByNickname_def DeleteUserByNickname_session_def
        StartSession_def FindOne_def Let_def matches_user_id_int64 delete_first_never
        split: prod.splits option.splits sum.splits if_splits
        dest!: mg_call_tables)

text \<open>
  Claim C2 fails on the code. \<open>carol\<close> is user 1 and owns the URL \<open>ex\<close>. The
  coordinator's \<open>DeleteUserByNickname\<close> succeeds: the relational backend loses the user
  and the URL, the document backend loses the URL document, and \<open>GetURL\<close> no longer
  finds the alias. The user document stays: the last call of the document adapter is
  \<open>DeleteOne\<close> with the filter \<open>{"_id": doc.ID}\<close>, where \<open>doc.ID\<close> is the \<open>int64\<close>
  field \<open>user_id\<close>, and the \<open>_id\<close> of a stored user is an ObjectID, which no
  \<open>int64\<close> equals.
\<close>

theorem DeleteUserByNickname_document_user_survives:
  "fst (DeleteUserByNickname carol_store ''carol'') = None \<and>
   sq_users (sqliteDB (snd (DeleteUserByNickname carol_store ''carol''))) = [] \<and>
   sq_urls (sqliteDB (snd (DeleteUserByNickname carol_store ''carol''))) = [] \<and>
   mg_urls (mongoDB (snd (DeleteUserByNickname carol_store ''carol''))) = [] \<and>
   fst (GetURL (snd (DeleteUserByNickname carol_store ''carol'')) ''ex'' 1) =
     ('''', Some ErrURLNotFound) \<and>
   mg_users (mongoDB (snd (DeleteUserByNickname carol_store ''carol''))) =
     [\<lparr>ud_id = \<lparr>oid_timestamp = 1700000000, oid_rest = 0\<rparr>, ud_nickname = ''carol'',
       ud_password_hash = ''h2'', ud_user_id = 1\<rparr>]"
  by (simp add: carol_store_eq DeleteUserByNickname_def sqlite_DeleteUserByNickname_def
        mongodb_DeleteUserByNickname_def DeleteUserByNickname_session_def
        GetURL_def sqlite_GetURL_def mongodb_GetURL_def driver_defs)

end
